theory Spec2Isabelle
  imports Complex_Main "HOL-Library.Char_ord" "HOL-Library.List_Lexorder"
begin

section \<open>Text and table cells\<close>

text \<open>
  The text of the frames of the pipeline and of the reports is modelled as \<open>string\<close>,
  one \<open>char\<close> per character, a \<open>char\<close> being a code point below 256. Whitespace is
  what \<open>str.isspace\<close> and \<open>str.strip\<close> take it to be, for every code point.
  \<open>str.upper\<close> is modelled on the letters a-z; its result is only ever compared with
  the empty string and with \<open>UNKNOWN\<close>, and no other character is upper-cased to a
  letter of that word.

  A cell of a text column of a pandas DataFrame is either a string or the missing value
  NaN (what \<open>read_csv\<close> produces for an empty field): \<open>None\<close> is NaN.
\<close>

type_synonym cell = "string option"

type_synonym codepoint = nat

text \<open>
  The whitespace of Python: U+0009 to U+000D, U+001C to U+0020, U+0085, U+00A0, U+1680,
  U+2000 to U+200A, U+2028, U+2029, U+202F, U+205F and U+3000.
\<close>

definition isspace_cp :: "codepoint \<Rightarrow> bool" where
  "isspace_cp n =
     ((9 \<le> n \<and> n \<le> 13) \<or> (28 \<le> n \<and> n \<le> 32) \<or> n = 133 \<or> n = 160 \<or> n = 5760
      \<or> (8192 \<le> n \<and> n \<le> 8202) \<or> n = 8232 \<or> n = 8233 \<or> n = 8239 \<or> n = 8287
      \<or> n = 12288)"

definition isspace :: "char \<Rightarrow> bool" where
  "isspace c = isspace_cp (of_char c)"

definition isalpha_lower :: "char \<Rightarrow> bool" where
  "isalpha_lower c = (let n = (of_char c :: nat) in 97 \<le> n \<and> n \<le> 122)"

definition upper_char :: "char \<Rightarrow> char" where
  "upper_char c = (if isalpha_lower c then char_of ((of_char c :: nat) - 32) else c)"

text \<open>\<open>str.strip()\<close>: drop the whitespace at both ends.\<close>

definition strip :: "string \<Rightarrow> string" where
  "strip s = rev (dropWhile isspace (rev (dropWhile isspace s)))"

text \<open>\<open>str.upper()\<close>.\<close>

definition upper :: "string \<Rightarrow> string" where
  "upper s = map upper_char s"

text \<open>\<open>pd.isna\<close> on a cell, and \<open>astype(str)\<close>, which renders NaN as the text \<open>nan\<close>.\<close>

definition isna :: "cell \<Rightarrow> bool" where
  "isna v = (v = None)"

definition astype_str :: "cell \<Rightarrow> string" where
  "astype_str v = (case v of None \<Rightarrow> ''nan'' | Some s \<Rightarrow> s)"

section \<open>The needs-geocoding predicate (data_processor.py)\<close>

text \<open>
  \<open>CountyDataProcessor._needs_geocoding\<close>: NaN needs geocoding; otherwise the value is
  stripped, then upper-cased, and compared with the empty string and \<open>UNKNOWN\<close>.
\<close>

definition private_needs_geocoding :: "cell \<Rightarrow> bool" where
  "private_needs_geocoding county_value =
     (if isna county_value then True
      else (let county_str = upper (strip (astype_str county_value))
            in county_str = '''' \<or> county_str = ''UNKNOWN''))"

text \<open>
  The mask computed by \<open>identify_missing_counties\<close>, the one that selects the rows of a
  run: per cell, \<open>isna | (astype(str).str.strip() == '') | (astype(str).str.upper() == 'UNKNOWN')\<close>.
  The third disjunct upper-cases the unstripped text.
\<close>

definition needs_geocoding_cell :: "cell \<Rightarrow> bool" where
  "needs_geocoding_cell v =
     (isna v \<or> strip (astype_str v) = '''' \<or> upper (astype_str v) = ''UNKNOWN'')"

definition needs_geocoding_mask :: "cell list \<Rightarrow> bool list" where
  "needs_geocoding_mask col = map needs_geocoding_cell col"

section \<open>DataFrames\<close>

text \<open>
  A DataFrame is column-oriented: \<open>df['CountyName']\<close> looks a column up by its name and
  raises KeyError when the frame has no such column. \<open>nrows\<close> is \<open>len(df)\<close>. In a
  well-formed frame every column has \<open>nrows\<close> cells. Rows are identified by their
  position, the index \<open>read_csv\<close> gives a freshly loaded frame. The type of a frame
  has the type of the characters of its text as a parameter; a \<open>dataframe\<close> holds
  text of type \<open>string\<close>.
\<close>

record 'c frame =
  nrows :: nat
  cols :: "string \<rightharpoonup> 'c list option list"

type_synonym dataframe = "char frame"

definition wf_df :: "dataframe \<Rightarrow> bool" where
  "wf_df df = (\<forall>c col. cols df c = Some col \<longrightarrow> length col = nrows df)"

datatype exn = KeyError | TypeError | AttributeError | IndexError | RequestException
  | JSONDecodeError

text \<open>A row taken out of a frame (a Series): the cell of each column at position \<open>i\<close>.\<close>

type_synonym series = "string \<rightharpoonup> cell"

definition iloc_row :: "dataframe \<Rightarrow> nat \<Rightarrow> series" where
  "iloc_row df i = (\<lambda>c. map_option (\<lambda>col. col ! i) (cols df c))"

text \<open>
  \<open>df[mask]\<close> followed by \<open>iterrows()\<close>: the rows whose mask entry is True, in frame
  order, each with its index. The selection is a copy, so the rows keep the values they
  had when they were selected.
\<close>

definition select_rows :: "dataframe \<Rightarrow> bool list \<Rightarrow> (nat \<times> series) list" where
  "select_rows df flags =
     map (\<lambda>i. (i, iloc_row df i)) (filter (\<lambda>i. flags ! i) [0..<length flags])"

text \<open>\<open>mask.sum()\<close>: the number of True entries.\<close>

definition sum_mask :: "bool list \<Rightarrow> int" where
  "sum_mask flags = int (length (filter (\<lambda>b. b) flags))"

text \<open>
  \<open>df.at[idx, c] = v\<close>. On an existing column it overwrites one cell; on a missing column
  pandas falls back to \<open>loc\<close> and adds the column, NaN everywhere else. The pipeline calls
  it only with the index of a selected row, which is a position of the frame.
\<close>

definition at_set :: "dataframe \<Rightarrow> nat \<Rightarrow> string \<Rightarrow> cell \<Rightarrow> dataframe" where
  "at_set df idx c v =
     df\<lparr>cols := (cols df)(c \<mapsto>
        (case cols df c of
           Some col \<Rightarrow> col[idx := v]
         | None \<Rightarrow> (replicate (nrows df) None)[idx := v]))\<rparr>"

section \<open>The enrichment pipeline (data_processor.py)\<close>

text \<open>The counters of \<open>CountyDataProcessor.stats\<close>, all zero in a new processor.\<close>

record stats =
  total :: int
  needs_geocoding :: int
  geocoded :: int
  failed :: int
  already_had_county :: int

definition init_stats :: stats where
  "init_stats = \<lparr>total = 0, needs_geocoding = 0, geocoded = 0, failed = 0,
                 already_had_county = 0\<rparr>"

text \<open>
  The geocoding client as the pipeline sees it: \<open>geocode_address(street, city, state,
  zip)\<close> returns a county name or None. The client may keep state of its own (a cache,
  the network), passed along as \<open>'g\<close>.
\<close>

type_synonym 'g client = "cell \<Rightarrow> cell \<Rightarrow> cell \<Rightarrow> cell \<Rightarrow> 'g \<Rightarrow> cell \<times> 'g"

text \<open>Python's truth value of an optional string: None and the empty string are false.\<close>

definition truthy :: "cell \<Rightarrow> bool" where
  "truthy v = (case v of None \<Rightarrow> False | Some s \<Rightarrow> s \<noteq> '''')"

definition load_csv :: "dataframe \<Rightarrow> stats \<Rightarrow> dataframe \<times> stats" where
  "load_csv file st = (file, st\<lparr>total := int (nrows file)\<rparr>)"

definition identify_missing_counties ::
  "dataframe \<Rightarrow> stats \<Rightarrow> exn + ((nat \<times> series) list \<times> stats)" where
  "identify_missing_counties df st =
     (case cols df ''CountyName'' of
        None \<Rightarrow> Inl KeyError
      | Some col \<Rightarrow>
          (let needs = needs_geocoding_mask col;
               st1 = st\<lparr>needs_geocoding := sum_mask needs\<rparr>;
               st2 = st1\<lparr>already_had_county := int (nrows df) - sum_mask needs\<rparr>
           in Inr (select_rows df needs, st2)))"

text \<open>
  \<open>process_row\<close>: read the four address fields of the row (KeyError when one is
  missing), call the client once, and branch on \<open>if county:\<close>. The progress numbers are
  only printed and are left out.
\<close>

definition process_row ::
  "'g client \<Rightarrow> nat \<Rightarrow> series \<Rightarrow> dataframe \<Rightarrow> stats \<Rightarrow> 'g
     \<Rightarrow> exn + (bool \<times> dataframe \<times> stats \<times> 'g)" where
  "process_row geocode_address idx row df st g =
     (case row ''StreetAddress'' of None \<Rightarrow> Inl KeyError | Some street_address \<Rightarrow>
     (case row ''City'' of None \<Rightarrow> Inl KeyError | Some city \<Rightarrow>
     (case row ''State'' of None \<Rightarrow> Inl KeyError | Some state \<Rightarrow>
     (case row ''Zipcode'' of None \<Rightarrow> Inl KeyError | Some zipcode \<Rightarrow>
       (case geocode_address street_address city state zipcode g of (county, g') \<Rightarrow>
          if truthy county
          then Inr (True, at_set df idx ''CountyName'' county,
                    st\<lparr>geocoded := geocoded st + 1\<rparr>, g')
          else Inr (False, df, st\<lparr>failed := failed st + 1\<rparr>, g'))))))"

text \<open>
  The loop of \<open>process_dataframe\<close> over the selected rows. \<open>wait()\<close> sleeps and the
  progress callback only observes; neither touches the frame or the counters.
\<close>

fun process_rows ::
  "'g client \<Rightarrow> (nat \<times> series) list \<Rightarrow> dataframe \<Rightarrow> stats \<Rightarrow> 'g
     \<Rightarrow> exn + (dataframe \<times> stats \<times> 'g)" where
  "process_rows geocode_address [] df st g = Inr (df, st, g)"
| "process_rows geocode_address ((idx, row) # rest) df st g =
     (case process_row geocode_address idx row df st g of
        Inl e \<Rightarrow> Inl e
      | Inr (ok, df', st', g') \<Rightarrow> process_rows geocode_address rest df' st' g')"

definition process_dataframe ::
  "'g client \<Rightarrow> dataframe \<Rightarrow> stats \<Rightarrow> 'g \<Rightarrow> exn + (dataframe \<times> stats \<times> 'g)" where
  "process_dataframe geocode_address df st g =
     (case identify_missing_counties df st of
        Inl e \<Rightarrow> Inl e
      | Inr (missing_df, st') \<Rightarrow> process_rows geocode_address missing_df df st' g)"

text \<open>
  \<open>process_csv_file\<close>: load, process, save. The frame returned is the one written to the
  output file.
\<close>

definition process_csv_file ::
  "'g client \<Rightarrow> dataframe \<Rightarrow> stats \<Rightarrow> 'g \<Rightarrow> exn + (dataframe \<times> stats \<times> 'g)" where
  "process_csv_file geocode_address input_file st g =
     (case load_csv input_file st of (df, st1) \<Rightarrow> process_dataframe geocode_address df st1 g)"

text \<open>A client that answers every lookup with the same value, and a three-row frame.\<close>

definition stub_client :: "cell \<Rightarrow> unit client" where
  "stub_client answer = (\<lambda>street city state zipcode g. (answer, g))"

definition example_df :: dataframe where
  "example_df = \<lparr>nrows = 3, cols =
     [''StreetAddress'' \<mapsto> [Some ''1 Main St'', Some ''2 Oak Ave'', Some ''3 Elm Rd''],
      ''City'' \<mapsto> [Some ''Atlanta'', Some ''Decatur'', Some ''Decatur''],
      ''State'' \<mapsto> [Some ''GA'', Some ''GA'', Some ''GA''],
      ''Zipcode'' \<mapsto> [Some ''30303'', Some ''30030'', Some ''30033''],
      ''CountyName'' \<mapsto> [Some ''Fulton'', Some '''', Some ''UNKNOWN'']]\<rparr>"

text \<open>
  The frame and the counters that one run of \<open>process_csv_file\<close> on \<open>example_df\<close>
  leaves, with a new processor and a client that always answers DeKalb.
\<close>

definition geocoded_df :: dataframe where
  "geocoded_df = example_df\<lparr>cols := (cols example_df)(''CountyName'' \<mapsto>
      [Some ''Fulton'', Some ''DeKalb'', Some ''DeKalb''])\<rparr>"

definition first_run_stats :: stats where
  "first_run_stats = \<lparr>total = 3, needs_geocoding = 2, geocoded = 2, failed = 0,
                       already_had_county = 1\<rparr>"

section \<open>The geocoding client (geocoder.py)\<close>

text \<open>
  The value \<open>response.json()\<close> returns: None, a bool, a number, a string, a list or a
  dict. A dict is given by its items, looked up with \<open>map_of\<close>. The float rounding of
  numbers is left out; no result below depends on a number.
\<close>

datatype json = JNull | JBool bool | JNum rat | JStr string | JArr "json list"
  | JObj "(string \<times> json) list"

text \<open>Sequencing of steps that may raise: the first exception ends the \<open>try\<close> block.\<close>

definition exn_bind :: "exn + 'a \<Rightarrow> ('a \<Rightarrow> exn + 'b) \<Rightarrow> exn + 'b" where
  "exn_bind m f = (case m of Inl e \<Rightarrow> Inl e | Inr x \<Rightarrow> f x)"

text \<open>\<open>sub in s\<close> on two strings: \<open>sub\<close> occurs in \<open>s\<close>.\<close>

fun contains :: "string \<Rightarrow> string \<Rightarrow> bool" where
  "contains [] sub = (sub = [])"
| "contains (c # cs) sub = (take (length sub) (c # cs) = sub \<or> contains cs sub)"

text \<open>
  \<open>k in x\<close> for a string \<open>k\<close>: key membership on a dict, element membership on a list,
  substring test on a string, TypeError on anything else.
\<close>

definition py_in :: "string \<Rightarrow> json \<Rightarrow> exn + bool" where
  "py_in k x =
     (case x of
        JObj d \<Rightarrow> Inr (map_of d k \<noteq> None)
      | JArr xs \<Rightarrow> Inr (JStr k \<in> set xs)
      | JStr s \<Rightarrow> Inr (contains s k)
      | _ \<Rightarrow> Inl TypeError)"

text \<open>\<open>x[k]\<close> for a string \<open>k\<close>: KeyError on a dict without the key, TypeError on a non-dict.\<close>

definition py_getitem :: "json \<Rightarrow> string \<Rightarrow> exn + json" where
  "py_getitem x k =
     (case x of
        JObj d \<Rightarrow> (case map_of d k of None \<Rightarrow> Inl KeyError | Some v \<Rightarrow> Inr v)
      | _ \<Rightarrow> Inl TypeError)"

text \<open>The truth value of \<open>x\<close>, and \<open>len(x)\<close>.\<close>

definition py_bool :: "json \<Rightarrow> bool" where
  "py_bool x =
     (case x of JNull \<Rightarrow> False | JBool b \<Rightarrow> b | JNum n \<Rightarrow> n \<noteq> 0 | JStr s \<Rightarrow> s \<noteq> []
      | JArr xs \<Rightarrow> xs \<noteq> [] | JObj d \<Rightarrow> d \<noteq> [])"

definition py_len :: "json \<Rightarrow> exn + nat" where
  "py_len x =
     (case x of JStr s \<Rightarrow> Inr (length s) | JArr xs \<Rightarrow> Inr (length xs)
      | JObj d \<Rightarrow> Inr (length d) | _ \<Rightarrow> Inl TypeError)"

text \<open>
  \<open>x[0]\<close>: the first element of a list, the first character of a string, KeyError on a
  dict (its keys are strings), TypeError on anything else.
\<close>

definition py_first :: "json \<Rightarrow> exn + json" where
  "py_first x =
     (case x of
        JArr xs \<Rightarrow> (case xs of [] \<Rightarrow> Inl IndexError | y # _ \<Rightarrow> Inr y)
      | JStr s \<Rightarrow> (case s of [] \<Rightarrow> Inl IndexError | c # _ \<Rightarrow> Inr (JStr [c]))
      | JObj d \<Rightarrow> Inl KeyError
      | _ \<Rightarrow> Inl TypeError)"

text \<open>\<open>x.get(k, dflt)\<close>: only a dict has the method.\<close>

definition py_get :: "json \<Rightarrow> string \<Rightarrow> json \<Rightarrow> exn + json" where
  "py_get x k dflt =
     (case x of
        JObj d \<Rightarrow> Inr (case map_of d k of None \<Rightarrow> dflt | Some v \<Rightarrow> v)
      | _ \<Rightarrow> Inl AttributeError)"

text \<open>The two tests of the source: \<open>k1 in x and k2 in x[k1]\<close>, and \<open>x and len(x) > 0\<close>.\<close>

definition has_path :: "json \<Rightarrow> string \<Rightarrow> string \<Rightarrow> exn + bool" where
  "has_path x k1 k2 =
     exn_bind (py_in k1 x) (\<lambda>b.
       if b then exn_bind (py_getitem x k1) (py_in k2) else Inr False)"

definition nonempty :: "json \<Rightarrow> exn + bool" where
  "nonempty x = (if py_bool x then exn_bind (py_len x) (\<lambda>n. Inr (n > 0)) else Inr False)"

text \<open>The part of \<open>geocode_address\<close> that reads the county out of the parsed response.\<close>

definition extract_county :: "json \<Rightarrow> exn + json" where
  "extract_county data =
     exn_bind (has_path data ''result'' ''addressMatches'') (\<lambda>c1.
     if c1 then
       exn_bind (py_getitem data ''result'') (\<lambda>result.
       exn_bind (py_getitem result ''addressMatches'') (\<lambda>matches.
       exn_bind (nonempty matches) (\<lambda>c2.
       if c2 then
         exn_bind (py_first matches) (\<lambda>match.
         exn_bind (has_path match ''geographies'' ''Counties'') (\<lambda>c3.
         if c3 then
           exn_bind (py_getitem match ''geographies'') (\<lambda>geographies.
           exn_bind (py_getitem geographies ''Counties'') (\<lambda>counties.
           exn_bind (nonempty counties) (\<lambda>c4.
           if c4 then
             exn_bind (py_first counties) (\<lambda>county. py_get county ''NAME'' (JStr ''''))
           else Inr JNull)))
         else Inr JNull))
       else Inr JNull)))
     else Inr JNull)"

text \<open>
  What the network gives for one request: no connection, a timeout, or a response with a
  status code and a body, which is JSON (\<open>Some\<close>) or not (\<open>None\<close>). The API is a function
  of the four address parameters.
\<close>

datatype http_outcome = ConnectionFailed | TimedOut | Response nat "json option"

type_synonym api = "cell \<Rightarrow> cell \<Rightarrow> cell \<Rightarrow> cell \<Rightarrow> http_outcome"

text \<open>
  \<open>requests.get\<close> raises a RequestException when the connection fails or times out;
  \<open>raise_for_status\<close> raises one for a status from 400 to 599 and for no other status;
  \<open>response.json()\<close> raises when the body is not JSON.
\<close>

definition requests_get ::
  "api \<Rightarrow> cell \<Rightarrow> cell \<Rightarrow> cell \<Rightarrow> cell \<Rightarrow> exn + (nat \<times> json option)" where
  "requests_get api street city state zipcode =
     (case api street city state zipcode of
        ConnectionFailed \<Rightarrow> Inl RequestException
      | TimedOut \<Rightarrow> Inl RequestException
      | Response status body \<Rightarrow> Inr (status, body))"

definition raise_for_status :: "nat \<Rightarrow> exn + unit" where
  "raise_for_status status =
     (if 400 \<le> status \<and> status < 600 then Inl RequestException else Inr ())"

definition response_json :: "json option \<Rightarrow> exn + json" where
  "response_json body = (case body of None \<Rightarrow> Inl JSONDecodeError | Some data \<Rightarrow> Inr data)"

text \<open>The body of the \<open>try\<close> block, and the function with its two handlers.\<close>

definition geocode_try :: "api \<Rightarrow> cell \<Rightarrow> cell \<Rightarrow> cell \<Rightarrow> cell \<Rightarrow> exn + json" where
  "geocode_try api street_address city state zipcode =
     exn_bind (requests_get api street_address city state zipcode) (\<lambda>(status, body).
     exn_bind (raise_for_status status) (\<lambda>u.
     exn_bind (response_json body) extract_county))"

definition geocode_address :: "api \<Rightarrow> cell \<Rightarrow> cell \<Rightarrow> cell \<Rightarrow> cell \<Rightarrow> json" where
  "geocode_address api street_address city state zipcode =
     (case geocode_try api street_address city state zipcode of
        Inl e \<Rightarrow> (if e = RequestException then JNull else JNull)
      | Inr county_name \<Rightarrow> county_name)"

text \<open>The value the caller sees: every exception of the \<open>try\<close> block becomes None.\<close>

definition exn_val :: "exn + json \<Rightarrow> json" where
  "exn_val m = (case m of Inl e \<Rightarrow> JNull | Inr v \<Rightarrow> v)"

text \<open>
  The lookup as the specification words it, with the answer for a first county without a
  NAME key as the code gives it: follow result, addressMatches, the first match,
  geographies, Counties, the first county; anything else on the way is "no county found".
\<close>

definition spec_first_county :: "json \<Rightarrow> (string \<times> json) list option" where
  "spec_first_county data =
     (case data of JObj d \<Rightarrow>
        (case map_of d ''result'' of Some (JObj r) \<Rightarrow>
           (case map_of r ''addressMatches'' of Some (JArr (JObj m # ms)) \<Rightarrow>
              (case map_of m ''geographies'' of Some (JObj g) \<Rightarrow>
                 (case map_of g ''Counties'' of Some (JArr (JObj c # cs)) \<Rightarrow> Some c
                  | _ \<Rightarrow> None)
               | _ \<Rightarrow> None)
            | _ \<Rightarrow> None)
         | _ \<Rightarrow> None)
      | _ \<Rightarrow> None)"

definition spec_lookup :: "json \<Rightarrow> json" where
  "spec_lookup data =
     (case spec_first_county data of
        None \<Rightarrow> JNull
      | Some c \<Rightarrow> (case map_of c ''NAME'' of None \<Rightarrow> JStr '''' | Some v \<Rightarrow> v))"

text \<open>An API that gives the same outcome for every address, and two response bodies.\<close>

definition const_api :: "http_outcome \<Rightarrow> api" where
  "const_api outcome = (\<lambda>street city state zipcode. outcome)"

definition county_response :: "(string \<times> json) list \<Rightarrow> json" where
  "county_response county =
     JObj [(''result'', JObj [(''addressMatches'',
       JArr [JObj [(''geographies'', JObj [(''Counties'', JArr [JObj county])])]])])]"

section \<open>Reports (utils.py, DataAnalyzer)\<close>

text \<open>
  \<open>analyze_csv\<close>: the row count and the number of NaN county cells. The frequency
  tables of counties, cities, zip codes and home types and the statistics of a numeric
  Price column are left out of the record; the function reads the columns CountyName,
  City and Zipcode and raises KeyError when one is missing.
\<close>

record analysis =
  total_properties :: nat
  missing_county :: int

definition analyze_csv :: "dataframe \<Rightarrow> exn + analysis" where
  "analyze_csv df =
     (case cols df ''CountyName'' of None \<Rightarrow> Inl KeyError | Some county \<Rightarrow>
     (case cols df ''City'' of None \<Rightarrow> Inl KeyError | Some city \<Rightarrow>
     (case cols df ''Zipcode'' of None \<Rightarrow> Inl KeyError | Some zipcode \<Rightarrow>
        Inr \<lparr>total_properties = nrows df, missing_county = sum_mask (map isna county)\<rparr>)))"

text \<open>
  The counts of \<open>compare_csvs\<close> are numpy integers, the results of \<open>Series.sum()\<close>.
  Their true division does not raise on a zero divisor: it warns and gives nan for 0/0
  and an infinity otherwise. The quotient is kept exact here; its rounding to a float
  and the format \<open>.1f\<close> of the success rate are left out.
\<close>

datatype npfloat = Finite rat | PosInf | NegInf | NotANumber

definition np_true_divide :: "int \<Rightarrow> int \<Rightarrow> npfloat" where
  "np_true_divide a b =
     (if b = 0 then (if a = 0 then NotANumber else if 0 < a then PosInf else NegInf)
      else Finite (of_int a / of_int b))"

definition np_times :: "npfloat \<Rightarrow> rat \<Rightarrow> npfloat" where
  "np_times x k = (case x of Finite q \<Rightarrow> Finite (q * k) | other \<Rightarrow> other)"

record comparison =
  original_missing :: int
  updated_missing :: int
  records_updated :: int
  success_rate :: npfloat

definition compare_csvs :: "dataframe \<Rightarrow> dataframe \<Rightarrow> exn + comparison" where
  "compare_csvs df_original df_updated =
     (case cols df_original ''CountyName'' of None \<Rightarrow> Inl KeyError | Some county_original \<Rightarrow>
     (case cols df_updated ''CountyName'' of None \<Rightarrow> Inl KeyError | Some county_updated \<Rightarrow>
        (let original_missing = sum_mask (map isna county_original);
             updated_missing = sum_mask (map isna county_updated)
         in Inr \<lparr>original_missing = original_missing,
                 updated_missing = updated_missing,
                 records_updated = original_missing - updated_missing,
                 success_rate =
                   np_times (np_true_divide (original_missing - updated_missing)
                                            original_missing) 100\<rparr>)))"

text \<open>
  \<open>export_by_county\<close>. \<open>groupby('CountyName')\<close> drops the rows with a NaN key and
  yields the groups in the sorted order of their keys, each with its rows in frame
  order; the test \<open>pd.notna(county_name)\<close> therefore always holds. A group is written
  with \<open>to_csv\<close>, which replaces a file of the same name.
\<close>

definition county_keys :: "cell list \<Rightarrow> string list" where
  "county_keys col = sort (remdups (map the (filter (\<lambda>v. v \<noteq> None) col)))"

definition groupby_county :: "cell list \<Rightarrow> (string \<times> nat list) list" where
  "groupby_county col =
     map (\<lambda>k. (k, filter (\<lambda>i. col ! i = Some k) [0..<length col])) (county_keys col)"

definition take_rows :: "dataframe \<Rightarrow> nat list \<Rightarrow> dataframe" where
  "take_rows df idxs =
     \<lparr>nrows = length idxs,
      cols = (\<lambda>c. map_option (\<lambda>col. map (\<lambda>i. col ! i) idxs) (cols df c))\<rparr>"

definition replace_char :: "char \<Rightarrow> char \<Rightarrow> string \<Rightarrow> string" where
  "replace_char old new s = map (\<lambda>c. if c = old then new else c) s"

definition county_filename :: "string \<Rightarrow> string \<Rightarrow> string" where
  "county_filename output_dir county_name =
     output_dir @ ''/'' @ replace_char CHR '' '' CHR ''_'' county_name @ ''.csv''"

type_synonym filesystem = "string \<rightharpoonup> dataframe"

fun write_groups ::
  "string \<Rightarrow> dataframe \<Rightarrow> (string \<times> nat list) list \<Rightarrow> filesystem \<Rightarrow> string list
     \<Rightarrow> filesystem \<times> string list" where
  "write_groups output_dir df [] fs files_created = (fs, files_created)"
| "write_groups output_dir df ((county_name, idxs) # rest) fs files_created =
     (let filename = county_filename output_dir county_name
      in write_groups output_dir df rest (fs(filename \<mapsto> take_rows df idxs))
           (files_created @ [filename]))"

text \<open>One iteration of the loop, as an update of the file system.\<close>

definition write_group :: "string \<Rightarrow> dataframe \<Rightarrow> filesystem \<Rightarrow> string \<times> nat list \<Rightarrow> filesystem" where
  "write_group output_dir df fs g =
     fs(county_filename output_dir (fst g) \<mapsto> take_rows df (snd g))"

definition export_by_county ::
  "dataframe \<Rightarrow> string \<Rightarrow> filesystem \<Rightarrow> exn + (string list \<times> filesystem)" where
  "export_by_county df output_dir fs =
     (case cols df ''CountyName'' of
        None \<Rightarrow> Inl KeyError
      | Some col \<Rightarrow>
          (case write_groups output_dir df (groupby_county col) fs [] of
             (fs', files_created) \<Rightarrow> Inr (files_created, fs')))"

section \<open>Cleaning (utils.py, DataCleaner)\<close>























text \<open>Frames for the runs of the reports.\<close>

definition report_df :: dataframe where
  "report_df = \<lparr>nrows = 3, cols =
     [''City'' \<mapsto> [Some ''Atlanta'', Some ''Decatur'', Some ''Decatur''],
      ''Zipcode'' \<mapsto> [Some ''30303'', Some ''30030'', Some ''30033''],
      ''CountyName'' \<mapsto> [Some ''UNKNOWN'', Some '' '', None]]\<rparr>"

definition resolved_df :: dataframe where
  "resolved_df = \<lparr>nrows = 2, cols =
     [''CountyName'' \<mapsto> [Some ''Fulton'', Some ''DeKalb'']]\<rparr>"

definition clash_df :: dataframe where
  "clash_df = \<lparr>nrows = 2, cols =
     [''CountyName'' \<mapsto> [Some ''De Kalb'', Some ''De_Kalb'']]\<rparr>"

section \<open>Facts about the text functions\<close>

lemma isspace_simps [simp]:
  "isspace (CHR '' '')" "\<not> isspace CHR ''U''" "\<not> isspace CHR ''N''" "\<not> isspace CHR ''F''"
  "\<not> isspace CHR ''n''" "\<not> isspace CHR ''D''"
  by (simp_all add: isspace_def isspace_cp_def)

lemma upper_char_simps [simp]:
  "upper_char CHR '' '' = CHR '' ''" "upper_char CHR ''U'' = CHR ''U''"
  "upper_char CHR ''N'' = CHR ''N''" "upper_char CHR ''K'' = CHR ''K''"
  "upper_char CHR ''O'' = CHR ''O''" "upper_char CHR ''W'' = CHR ''W''"
  by (simp_all add: upper_char_def isalpha_lower_def)

lemmas eval_defs = process_csv_file_def load_csv_def process_dataframe_def
  identify_missing_counties_def example_df_def init_stats_def needs_geocoding_mask_def
  needs_geocoding_cell_def isna_def astype_str_def strip_def upper_def sum_mask_def
  select_rows_def iloc_row_def process_row_def stub_client_def truthy_def at_set_def
  upt_conv_Cons

lemma of_char_upper_char:
  "(of_char (upper_char c) :: nat) = (if isalpha_lower c then of_char c - 32 else of_char c)"
proof -
  have m: "(n - 32) mod 256 = n - 32" if "n \<le> 122" for n :: nat
    using that by simp
  show ?thesis by (simp add: upper_char_def isalpha_lower_def Let_def m)
qed

lemma isspace_upper_char: "isspace (upper_char c) = isspace c"
  by (auto simp: isspace_def isspace_cp_def isalpha_lower_def of_char_upper_char Let_def)

lemma dropWhile_id_iff: "(dropWhile P xs = xs) = (xs = [] \<or> \<not> P (hd xs))"
proof (cases xs)
  case Nil
  then show ?thesis by simp
next
  case (Cons a list)
  have "dropWhile P list \<noteq> a # list"
  proof
    assume "dropWhile P list = a # list"
    then have "length (dropWhile P list) = Suc (length list)" by simp
    with length_dropWhile_le[of P list] show False by simp
  qed
  with Cons show ?thesis by simp
qed

text \<open>
  Dropping at both ends what satisfies \<open>P\<close> leaves a list as it is exactly when the list
  is empty or neither its first nor its last element satisfies \<open>P\<close>; and dropping twice
  is dropping once.
\<close>

lemma trim_fixed:
  "(rev (dropWhile P (rev (dropWhile P s))) = s)
     = (s = [] \<or> (\<not> P (hd s) \<and> \<not> P (last s)))"
proof (cases "s = []")
  case True
  then show ?thesis by simp
next
  case False
  let ?t = "rev (dropWhile P (rev (dropWhile P s)))"
  show ?thesis
  proof (cases "P (hd s)")
    case True
    have "length ?t \<le> length (dropWhile P s)"
      using length_dropWhile_le[of P "rev (dropWhile P s)"] by simp
    moreover have "length (dropWhile P s) < length s"
      using True False by (cases s) (auto simp: less_Suc_eq_le length_dropWhile_le)
    ultimately have lt: "length ?t < length s" by (rule le_less_trans)
    have "?t \<noteq> s"
    proof
      assume e: "?t = s"
      from lt show False unfolding e by simp
    qed
    with True False show ?thesis by simp
  next
    case nohd: False
    then have d: "dropWhile P s = s" by (simp add: dropWhile_id_iff)
    have "(dropWhile P (rev s) = rev s) = (\<not> P (last s))"
      using False by (simp add: dropWhile_id_iff hd_rev)
    moreover have "(?t = s) = (dropWhile P (rev s) = rev s)"
      by (simp add: d) (metis rev_rev_ident)
    ultimately show ?thesis using nohd False by simp
  qed
qed

lemma last_dropWhile: "dropWhile P xs \<noteq> [] \<Longrightarrow> last (dropWhile P xs) = last xs"
  by (metis last_appendR takeWhile_dropWhile_id)

lemma trim_ends:
  "rev (dropWhile P (rev (dropWhile P s))) = []
   \<or> (\<not> P (hd (rev (dropWhile P (rev (dropWhile P s)))))
      \<and> \<not> P (last (rev (dropWhile P (rev (dropWhile P s))))))"
proof -
  let ?d = "dropWhile P s"
  let ?r = "dropWhile P (rev ?d)"
  let ?t = "rev ?r"
  show ?thesis
  proof (cases "?t = []")
    case True
    then show ?thesis by simp
  next
    case False
    have r: "?r \<noteq> []" using False by simp
    have d: "?d \<noteq> []"
    proof
      assume "?d = []"
      then have "?r = []" by (simp del: dropWhile_eq_Nil_conv)
      with r show False by simp
    qed
    have "\<not> P (hd ?r)" using r by (rule hd_dropWhile)
    then have l: "\<not> P (last ?t)" using r by (simp add: last_rev)
    have "hd ?t = last ?r" using r by (simp add: hd_rev)
    also have "\<dots> = last (rev ?d)" using r by (rule last_dropWhile)
    also have "\<dots> = hd ?d" using d by (simp add: last_rev)
    finally have "hd ?t = hd ?d" .
    moreover have "\<not> P (hd ?d)" using d by (rule hd_dropWhile)
    ultimately show ?thesis using l by simp
  qed
qed

lemma strip_fixed:
  "(strip s = s) = (s = [] \<or> (\<not> isspace (hd s) \<and> \<not> isspace (last s)))"
  unfolding strip_def by (rule trim_fixed)

lemma strip_strip: "strip (strip s) = strip s"
  using trim_ends[of isspace s] by (simp add: strip_fixed) (simp add: strip_def)

lemma map_isspace_upper: "map isspace (upper s) = map isspace s"
  by (simp add: upper_def comp_def isspace_upper_char)

lemma upper_unknown_stripped: "upper s = ''UNKNOWN'' \<Longrightarrow> strip s = s"
proof -
  assume u: "upper s = ''UNKNOWN''"
  then have ne: "s \<noteq> []" by (auto simp: upper_def)
  have m: "map isspace s = map isspace ''UNKNOWN''"
    using map_isspace_upper[of s] u by simp
  have "isspace (hd s) = isspace (hd ''UNKNOWN'')"
    using arg_cong[OF m, of hd] ne by (simp add: hd_map)
  moreover have "isspace (last s) = isspace (last ''UNKNOWN'')"
    using arg_cong[OF m, of last] ne by (simp add: last_map)
  ultimately show ?thesis by (simp add: strip_fixed)
qed

section \<open>The needs-geocoding rule\<close>

text \<open>
  Whatever the mask selects, \<open>_needs_geocoding\<close> selects too, and the two agree on
  every value without whitespace at its ends.
\<close>

lemma mask_implies_private:
  "needs_geocoding_cell v \<Longrightarrow> private_needs_geocoding v"
  by (cases v)
    (auto simp: needs_geocoding_cell_def private_needs_geocoding_def isna_def astype_str_def
      upper_def upper_unknown_stripped[unfolded upper_def])

lemma agree_on_stripped:
  "strip s = s \<Longrightarrow> private_needs_geocoding (Some s) = needs_geocoding_cell (Some s)"
  by (auto simp: needs_geocoding_cell_def private_needs_geocoding_def isna_def astype_str_def
      upper_def)


text \<open>
  C1. The claim asks that the two implementations of the needs-geocoding rule treat the
  sentinel UNKNOWN surrounded by whitespace in the same way. They do not: on the value
  \<open>'' UNKNOWN ''\<close> the method \<open>_needs_geocoding\<close> answers True (it strips before it
  compares) and the mask of \<open>identify_missing_counties\<close>, which selects the rows of a run,
  answers False (it compares the unstripped text).
\<close>

theorem C1_padded_unknown_diverges:
  "private_needs_geocoding (Some '' UNKNOWN '') = True
   \<and> needs_geocoding_mask [Some '' UNKNOWN ''] = [False]"
  by (simp add: private_needs_geocoding_def needs_geocoding_mask_def needs_geocoding_cell_def
      isna_def astype_str_def strip_def upper_def)

section \<open>One row of the pipeline\<close>

text \<open>
  C3, as amended. \<open>process_row\<close> branches on \<open>if county:\<close>, the truth value of the
  result: when the lookup returns a non-null and non-empty name, the county cell of the row
  is set to it and \<open>geocoded\<close> grows by one; when it returns None or the empty string,
  \<open>failed\<close> grows by one and the frame is left as it was.
\<close>

theorem C3_process_row_effect:
  assumes "row ''StreetAddress'' = Some a" "row ''City'' = Some b"
      "row ''State'' = Some s" "row ''Zipcode'' = Some z"
      and "gc a b s z g = (county, g')"
  shows "\<exists>ok df' st'. process_row gc idx row df st g = Inr (ok, df', st', g') \<and>
     (if county \<noteq> None \<and> county \<noteq> Some ''''
      then ok \<and> df' = at_set df idx ''CountyName'' county
           \<and> geocoded st' = geocoded st + 1 \<and> failed st' = failed st
      else \<not> ok \<and> df' = df \<and> failed st' = failed st + 1 \<and> geocoded st' = geocoded st)"
  using assms by (cases county) (auto simp: process_row_def truthy_def)

text \<open>A run of the amended statement: the client answers DeKalb for the third row.\<close>

theorem C3_witness:
  "\<exists>ok df' st'. process_row (stub_client (Some ''DeKalb'')) 2 (iloc_row example_df 2)
        example_df init_stats () = Inr (ok, df', st', ())
     \<and> ok \<and> cols df' ''CountyName'' = Some [Some ''Fulton'', Some '''', Some ''DeKalb'']
     \<and> geocoded st' = 1 \<and> failed st' = 0"
proof -
  have r: "iloc_row example_df 2 ''StreetAddress'' = Some (Some ''3 Elm Rd'')"
    "iloc_row example_df 2 ''City'' = Some (Some ''Decatur'')"
    "iloc_row example_df 2 ''State'' = Some (Some ''GA'')"
    "iloc_row example_df 2 ''Zipcode'' = Some (Some ''30033'')"
    by (simp_all add: iloc_row_def example_df_def)
  have g: "stub_client (Some ''DeKalb'') (Some ''3 Elm Rd'') (Some ''Decatur'') (Some ''GA'')
             (Some ''30033'') () = (Some ''DeKalb'', ())"
    by (simp add: stub_client_def)
  have c: "cols (at_set example_df 2 ''CountyName'' (Some ''DeKalb'')) ''CountyName''
             = Some [Some ''Fulton'', Some '''', Some ''DeKalb'']"
    by (simp add: at_set_def example_df_def)
  from C3_process_row_effect[where gc = "stub_client (Some ''DeKalb'')" and idx = 2
      and df = example_df and st = init_stats, OF r g] c
  show ?thesis by (auto simp: init_stats_def)
qed

text \<open>
  The claim as written, which includes the empty string among the results that are
  stored, fails: with a client that answers the empty string the row counts as failed and
  its county cell keeps the value UNKNOWN.
\<close>

theorem C3_empty_result_counts_as_failure:
  "process_row (stub_client (Some '''')) 2 (iloc_row example_df 2) example_df init_stats ()
     = Inr (False, example_df,
            \<lparr>total = 0, needs_geocoding = 0, geocoded = 0, failed = 1, already_had_county = 0\<rparr>, ())"
  by (simp add: process_row_def iloc_row_def example_df_def stub_client_def truthy_def
      init_stats_def)

section \<open>The loop over the selected rows\<close>

lemma process_row_cols:
  assumes "process_row gc idx row df st g = Inr (ok, df1, st1, g1)"
      and "cols df ''CountyName'' = Some col"
  shows "\<exists>col1. cols df1 = (cols df)(''CountyName'' \<mapsto> col1) \<and> nrows df1 = nrows df
          \<and> length col1 = length col \<and> (\<forall>i. i \<noteq> idx \<longrightarrow> col1 ! i = col ! i)"
proof (cases "df1 = df")
  case True
  have "(cols df)(''CountyName'' \<mapsto> col) = cols df" using assms(2) by (simp add: map_upd_triv)
  then show ?thesis using True by (intro exI[of _ col]) simp
next
  case False
  with assms(1) obtain v where "df1 = at_set df idx ''CountyName'' v"
    by (auto simp: process_row_def split: option.splits prod.splits if_splits)
  then show ?thesis using assms(2)
    by (intro exI[of _ "col[idx := v]"]) (simp add: at_set_def)
qed

lemma process_rows_frame:
  "process_rows gc rows df st g = Inr (df', st', g') \<Longrightarrow>
   cols df ''CountyName'' = Some col \<Longrightarrow>
   \<exists>col'. nrows df' = nrows df \<and> cols df' = (cols df)(''CountyName'' \<mapsto> col')
      \<and> length col' = length col
      \<and> (\<forall>i. i \<notin> fst ` set rows \<longrightarrow> col' ! i = col ! i)"
proof (induction rows arbitrary: df st g col)
  case Nil
  have "(cols df)(''CountyName'' \<mapsto> col) = cols df" using Nil(2) by (simp add: map_upd_triv)
  with Nil(1) show ?case by (intro exI[of _ col]) simp
next
  case (Cons r rows)
  obtain idx row where r: "r = (idx, row)" by (cases r)
  from Cons.prems(1) r obtain ok df1 st1 g1 where
    step: "process_row gc idx row df st g = Inr (ok, df1, st1, g1)" and
    rest: "process_rows gc rows df1 st1 g1 = Inr (df', st', g')"
    by (auto split: sum.splits)
  from process_row_cols[OF step Cons.prems(2)] obtain col1 where
    c1: "cols df1 = (cols df)(''CountyName'' \<mapsto> col1)" "nrows df1 = nrows df"
        "length col1 = length col" "\<forall>i. i \<noteq> idx \<longrightarrow> col1 ! i = col ! i"
    by blast
  then have "cols df1 ''CountyName'' = Some col1" by simp
  from Cons.IH[OF rest this] obtain col' where
    c': "nrows df' = nrows df1" "cols df' = (cols df1)(''CountyName'' \<mapsto> col')"
        "length col' = length col1" "\<forall>i. i \<notin> fst ` set rows \<longrightarrow> col' ! i = col1 ! i"
    by blast
  show ?case
  proof (intro exI[of _ col'] conjI allI impI)
    show "nrows df' = nrows df" using c'(1) c1(2) by simp
    show "cols df' = (cols df)(''CountyName'' \<mapsto> col')" using c'(2) c1(1) by simp
    show "length col' = length col" using c'(3) c1(3) by simp
    fix i assume "i \<notin> fst ` set (r # rows)"
    then have "i \<noteq> idx" "i \<notin> fst ` set rows" using r by auto
    then show "col' ! i = col ! i" using c'(4) c1(4) by simp
  qed
qed

lemma select_rows_indices:
  "i \<in> fst ` set (select_rows df flags) \<Longrightarrow> i < length flags \<and> flags ! i"
  by (auto simp: select_rows_def)

lemma length_filter_nth:
  "length (filter (\<lambda>i. flags ! i) [0..<length flags]) = length (filter (\<lambda>b. b) flags)"
proof (induction flags rule: rev_induct)
  case Nil
  then show ?case by simp
next
  case (snoc b flags)
  have "filter (\<lambda>i. (flags @ [b]) ! i) [0..<length flags] = filter (\<lambda>i. flags ! i) [0..<length flags]"
    by (rule filter_cong) (auto simp: nth_append)
  with snoc show ?case by (simp add: nth_append)
qed

lemma length_select_rows: "int (length (select_rows df flags)) = sum_mask flags"
  by (simp add: select_rows_def sum_mask_def length_filter_nth)

lemma process_rows_counters:
  "process_rows gc rows df st g = Inr (df', st', g') \<Longrightarrow>
   geocoded st' + failed st' = geocoded st + failed st + int (length rows)
   \<and> total st' = total st \<and> needs_geocoding st' = needs_geocoding st
   \<and> already_had_county st' = already_had_county st"
proof (induction rows arbitrary: df st g)
  case Nil
  then show ?case by simp
next
  case (Cons r rows)
  obtain idx row where r: "r = (idx, row)" by (cases r)
  from Cons.prems r obtain ok df1 st1 g1 where
    step: "process_row gc idx row df st g = Inr (ok, df1, st1, g1)" and
    rest: "process_rows gc rows df1 st1 g1 = Inr (df', st', g')"
    by (auto split: sum.splits)
  from step have "geocoded st1 + failed st1 = geocoded st + failed st + 1
     \<and> total st1 = total st \<and> needs_geocoding st1 = needs_geocoding st
     \<and> already_had_county st1 = already_had_county st"
    by (auto simp: process_row_def split: option.splits prod.splits if_splits)
  with Cons.IH[OF rest] show ?case by simp
qed

lemma sum_mask_needs:
  "sum_mask (needs_geocoding_mask col) = int (length (filter needs_geocoding_cell col))"
  by (simp add: sum_mask_def needs_geocoding_mask_def filter_map comp_def)

lemma process_rows_returns:
  "\<forall>(idx, row) \<in> set rows. row ''StreetAddress'' \<noteq> None \<and> row ''City'' \<noteq> None
       \<and> row ''State'' \<noteq> None \<and> row ''Zipcode'' \<noteq> None \<Longrightarrow>
   \<exists>r. process_rows gc rows df st g = Inr r"
proof (induction rows arbitrary: df st g)
  case Nil
  then show ?case by simp
next
  case (Cons r rows)
  obtain idx row where r: "r = (idx, row)" by (cases r)
  with Cons.prems have "\<exists>x. process_row gc idx row df st g = Inr x"
    by (auto simp: process_row_def split: prod.splits)
  then obtain ok df1 st1 g1 where "process_row gc idx row df st g = Inr (ok, df1, st1, g1)"
    by (metis prod_cases4)
  moreover from Cons.prems have "\<exists>r. process_rows gc rows df1 st1 g1 = Inr r"
    by (intro Cons.IH) simp
  ultimately show ?case using r by simp
qed

lemma process_csv_file_returns:
  assumes "cols input_file ''CountyName'' \<noteq> None" "cols input_file ''StreetAddress'' \<noteq> None"
    "cols input_file ''City'' \<noteq> None" "cols input_file ''State'' \<noteq> None"
    "cols input_file ''Zipcode'' \<noteq> None"
  shows "\<exists>r. process_csv_file gc input_file st g = Inr r"
proof -
  from assms(1) obtain col where col: "cols input_file ''CountyName'' = Some col" by auto
  have "\<forall>(idx, row) \<in> set (select_rows input_file (needs_geocoding_mask col)).
          row ''StreetAddress'' \<noteq> None \<and> row ''City'' \<noteq> None
          \<and> row ''State'' \<noteq> None \<and> row ''Zipcode'' \<noteq> None"
    using assms(2-5) by (auto simp: select_rows_def iloc_row_def)
  from process_rows_returns[OF this] show ?thesis
    using col
    by (simp add: process_csv_file_def load_csv_def process_dataframe_def
        identify_missing_counties_def Let_def)
qed

text \<open>A run keeps a well-formed frame well-formed.\<close>

lemma process_dataframe_wf:
  assumes "wf_df df" and "process_dataframe gc df st g = Inr (df', st', g')"
  shows "wf_df df'"
proof -
  from assms(2) obtain col where col: "cols df ''CountyName'' = Some col"
    by (auto simp: process_dataframe_def identify_missing_counties_def split: option.splits)
  from assms(2) col obtain st2 where run:
    "process_rows gc (select_rows df (needs_geocoding_mask col)) df st2 g = Inr (df', st', g')"
    by (simp add: process_dataframe_def identify_missing_counties_def Let_def)
  from process_rows_frame[OF run col] obtain col' where
    c: "nrows df' = nrows df" "cols df' = (cols df)(''CountyName'' \<mapsto> col')"
       "length col' = length col"
    by blast
  have "length col = nrows df" using assms(1) col by (simp add: wf_df_def)
  with c assms(1) show ?thesis by (auto simp: wf_df_def)
qed

text \<open>
  What one call of \<open>process_dataframe\<close> does to the counters, whatever they were
  before: \<open>needs_geocoding\<close> becomes the number of rows the mask selects,
  \<open>geocoded\<close> and \<open>failed\<close> together grow by that number, \<open>already_had_county\<close>
  becomes the rest of the rows, and \<open>total\<close> is not touched.
\<close>

lemma process_dataframe_counters:
  assumes "process_dataframe gc df st g = Inr (df', st', g')"
  shows "\<exists>col. cols df ''CountyName'' = Some col
           \<and> needs_geocoding st' = int (length (filter needs_geocoding_cell col))
           \<and> geocoded st' + failed st' = geocoded st + failed st + needs_geocoding st'
           \<and> already_had_county st' + needs_geocoding st' = int (nrows df)
           \<and> total st' = total st"
proof -
  from assms obtain col where col: "cols df ''CountyName'' = Some col"
    by (auto simp: process_dataframe_def identify_missing_counties_def split: option.splits)
  define st2 where "st2 = st\<lparr>needs_geocoding := sum_mask (needs_geocoding_mask col),
      already_had_county := int (nrows df) - sum_mask (needs_geocoding_mask col)\<rparr>"
  from assms col have run:
    "process_rows gc (select_rows df (needs_geocoding_mask col)) df st2 g = Inr (df', st', g')"
    by (simp add: process_dataframe_def identify_missing_counties_def Let_def st2_def)
  from process_rows_counters[OF run] show ?thesis
    using col by (simp add: st2_def length_select_rows sum_mask_needs)
qed

text \<open>
  C5, as amended. After a run of \<open>process_dataframe\<close> on any dataset, \<open>geocoded\<close>
  and \<open>failed\<close> have together grown by the number of rows selected by the mask, and
  \<open>already_had_county\<close> plus that number is the row count of the dataset. Hence after
  a run of \<open>process_csv_file\<close> with a new processor, whose counters are zero and whose
  \<open>total\<close> the run sets when it loads the dataset, \<open>geocoded + failed\<close> equals the
  number of selected rows and \<open>already_had_county\<close> plus that number equals \<open>total\<close>.
\<close>

theorem C5_counters:
  "(process_dataframe gc df st g = Inr (df', st', g') \<longrightarrow>
      (\<exists>col. cols df ''CountyName'' = Some col
         \<and> needs_geocoding st' = int (length (filter needs_geocoding_cell col))
         \<and> geocoded st' + failed st' = geocoded st + failed st + needs_geocoding st'
         \<and> already_had_county st' + needs_geocoding st' = int (nrows df)
         \<and> total st' = total st))
   \<and> (process_csv_file gc input_file init_stats g = Inr (df2, st2, g2) \<longrightarrow>
      (\<exists>col. cols input_file ''CountyName'' = Some col
         \<and> needs_geocoding st2 = int (length (filter needs_geocoding_cell col))
         \<and> geocoded st2 + failed st2 = needs_geocoding st2
         \<and> already_had_county st2 + needs_geocoding st2 = total st2
         \<and> total st2 = int (nrows input_file)))"
proof (intro conjI impI)
  assume "process_dataframe gc df st g = Inr (df', st', g')"
  then show "\<exists>col. cols df ''CountyName'' = Some col
         \<and> needs_geocoding st' = int (length (filter needs_geocoding_cell col))
         \<and> geocoded st' + failed st' = geocoded st + failed st + needs_geocoding st'
         \<and> already_had_county st' + needs_geocoding st' = int (nrows df)
         \<and> total st' = total st"
    by (rule process_dataframe_counters)
next
  assume "process_csv_file gc input_file init_stats g = Inr (df2, st2, g2)"
  then have "process_dataframe gc input_file (init_stats\<lparr>total := int (nrows input_file)\<rparr>) g
               = Inr (df2, st2, g2)"
    by (simp add: process_csv_file_def load_csv_def)
  from process_dataframe_counters[OF this]
  show "\<exists>col. cols input_file ''CountyName'' = Some col
         \<and> needs_geocoding st2 = int (length (filter needs_geocoding_cell col))
         \<and> geocoded st2 + failed st2 = needs_geocoding st2
         \<and> already_had_county st2 + needs_geocoding st2 = total st2
         \<and> total st2 = int (nrows input_file)"
    by (auto simp: init_stats_def)
qed

text \<open>
  The scenario of the specification, counties Fulton, empty, UNKNOWN: one run that
  starts from the counters of an earlier run, and one run of a new processor.
\<close>

theorem C5_witness:
  "\<exists>df' st' df2 st2.
     process_dataframe (stub_client (Some ''DeKalb'')) example_df first_run_stats ()
        = Inr (df', st', ())
     \<and> geocoded st' + failed st' = 2 + needs_geocoding st' \<and> total st' = 3
     \<and> already_had_county st' + needs_geocoding st' = 3
     \<and> process_csv_file (stub_client (Some ''DeKalb'')) example_df init_stats ()
        = Inr (df2, st2, ())
     \<and> needs_geocoding st2 = 2 \<and> geocoded st2 + failed st2 = needs_geocoding st2
     \<and> already_had_county st2 + needs_geocoding st2 = total st2 \<and> total st2 = 3"
proof -
  have "\<exists>df' st'. process_dataframe (stub_client (Some ''DeKalb'')) example_df first_run_stats ()
          = Inr (df', st', ())"
    by (simp add: eval_defs first_run_stats_def)
  then obtain df' st' where run1:
    "process_dataframe (stub_client (Some ''DeKalb'')) example_df first_run_stats ()
       = Inr (df', st', ())"
    by blast
  have "\<exists>df2 st2. process_csv_file (stub_client (Some ''DeKalb'')) example_df init_stats ()
          = Inr (df2, st2, ())"
    by (simp add: eval_defs)
  then obtain df2 st2 where run2:
    "process_csv_file (stub_client (Some ''DeKalb'')) example_df init_stats () = Inr (df2, st2, ())"
    by blast
  have col: "cols example_df ''CountyName'' = Some [Some ''Fulton'', Some '''', Some ''UNKNOWN'']"
    by (simp add: example_df_def)
  have n: "length (filter needs_geocoding_cell [Some ''Fulton'', Some '''', Some ''UNKNOWN'']) = 2"
    by (simp add: needs_geocoding_cell_def isna_def astype_str_def strip_def upper_def)
  have r: "nrows example_df = 3" by (simp add: example_df_def)
  have f: "geocoded first_run_stats + failed first_run_stats = 2" "total first_run_stats = 3"
    by (simp_all add: first_run_stats_def)
  from C5_counters[of "stub_client (Some ''DeKalb'')" example_df first_run_stats "()" df' st' "()"
      example_df df2 st2 "()"] run1 run2 col n r f
  show ?thesis by auto
qed

text \<open>
  The claim as written, for every run, fails. The counters are created once, with the
  processor, and \<open>geocoded\<close> and \<open>failed\<close> are only ever added to: a second run of
  the same processor on the same file ends with \<open>geocoded + failed = 4\<close> against two
  selected rows. And \<open>total\<close> is set by \<open>load_csv\<close> only: \<open>process_dataframe\<close> on
  its own leaves it at zero, against three rows.
\<close>

theorem C5_second_run_accumulates:
  "process_csv_file (stub_client (Some ''DeKalb'')) example_df init_stats ()
     = Inr (geocoded_df, first_run_stats, ())
   \<and> process_csv_file (stub_client (Some ''DeKalb'')) example_df first_run_stats ()
     = Inr (geocoded_df,
            \<lparr>total = 3, needs_geocoding = 2, geocoded = 4, failed = 0, already_had_county = 1\<rparr>,
            ())
   \<and> process_dataframe (stub_client (Some ''DeKalb'')) example_df init_stats ()
     = Inr (geocoded_df,
            \<lparr>total = 0, needs_geocoding = 2, geocoded = 2, failed = 0, already_had_county = 1\<rparr>,
            ())"
  by (simp add: eval_defs first_run_stats_def geocoded_df_def)

text \<open>
  C6. A run changes nothing but county cells of selected rows: the row count and every
  other column are as before, and the county cell of every row that the mask did not
  select is as before.
\<close>

theorem C6_unselected_rows_unchanged:
  assumes "process_dataframe gc df st g = Inr (df', st', g')"
  shows "nrows df' = nrows df
       \<and> (\<forall>c. c \<noteq> ''CountyName'' \<longrightarrow> cols df' c = cols df c)
       \<and> (\<exists>col col'. cols df ''CountyName'' = Some col \<and> cols df' ''CountyName'' = Some col'
             \<and> length col' = length col
             \<and> (\<forall>i<length col. \<not> needs_geocoding_cell (col ! i) \<longrightarrow> col' ! i = col ! i))"
proof -
  from assms obtain col where col: "cols df ''CountyName'' = Some col"
    by (auto simp: process_dataframe_def identify_missing_counties_def split: option.splits)
  from assms col obtain st2 where run:
    "process_rows gc (select_rows df (needs_geocoding_mask col)) df st2 g = Inr (df', st', g')"
    by (simp add: process_dataframe_def identify_missing_counties_def Let_def)
  from process_rows_frame[OF run col] obtain col' where
    c: "nrows df' = nrows df" "cols df' = (cols df)(''CountyName'' \<mapsto> col')"
       "length col' = length col"
       "\<forall>i. i \<notin> fst ` set (select_rows df (needs_geocoding_mask col)) \<longrightarrow> col' ! i = col ! i"
    by blast
  have "col' ! i = col ! i" if "i < length col" "\<not> needs_geocoding_cell (col ! i)" for i
  proof -
    have "i \<notin> fst ` set (select_rows df (needs_geocoding_mask col))"
      using select_rows_indices[of i df "needs_geocoding_mask col"] that
      by (auto simp: needs_geocoding_mask_def)
    with c(4) show ?thesis by simp
  qed
  with c col show ?thesis by simp
qed

text \<open>In the scenario above the first row, Fulton, is not selected and stays.\<close>

theorem C6_witness:
  "\<exists>df' st'. process_dataframe (stub_client (Some ''DeKalb'')) example_df init_stats ()
        = Inr (df', st', ())
     \<and> nrows df' = 3 \<and> cols df' ''City'' = cols example_df ''City''
     \<and> (\<exists>col'. cols df' ''CountyName'' = Some col' \<and> col' ! 0 = Some ''Fulton'')"
proof -
  have "\<exists>df' st'. process_dataframe (stub_client (Some ''DeKalb'')) example_df init_stats ()
          = Inr (df', st', ())"
    by (simp add: eval_defs)
  then obtain df' st' where run:
    "process_dataframe (stub_client (Some ''DeKalb'')) example_df init_stats () = Inr (df', st', ())"
    by blast
  have col: "cols example_df ''CountyName'' = Some [Some ''Fulton'', Some '''', Some ''UNKNOWN'']"
    by (simp add: example_df_def)
  have n: "\<not> needs_geocoding_cell (Some ''Fulton'')"
    by (simp add: needs_geocoding_cell_def isna_def astype_str_def strip_def upper_def
        upper_char_def isalpha_lower_def)
  have "nrows example_df = 3" by (simp add: example_df_def)
  with C6_unselected_rows_unchanged[OF run] col n run show ?thesis by auto
qed

section \<open>The lookup of the geocoding client\<close>

lemma exn_val_simps [simp]: "exn_val (Inr v) = v" "exn_val (Inl e) = JNull"
  by (simp_all add: exn_val_def)

lemma path_block:
  "exn_val (exn_bind (has_path x k1 k2) (\<lambda>c. if c then
      exn_bind (py_getitem x k1) (\<lambda>y. exn_bind (py_getitem y k2) F) else Inr JNull))
   = (case x of JObj d \<Rightarrow>
        (case map_of d k1 of Some (JObj r) \<Rightarrow>
           (case map_of r k2 of Some v \<Rightarrow> exn_val (F v) | None \<Rightarrow> JNull)
         | _ \<Rightarrow> JNull)
      | _ \<Rightarrow> JNull)"
  by (simp add: has_path_def exn_bind_def py_in_def py_getitem_def
      split: json.splits option.splits)

lemma first_block:
  "exn_val (exn_bind (nonempty x) (\<lambda>c. if c then exn_bind (py_first x) G else Inr JNull))
   = (case x of JArr (y # ys) \<Rightarrow> exn_val (G y)
      | JStr (ch # s) \<Rightarrow> exn_val (G (JStr [ch]))
      | _ \<Rightarrow> JNull)"
  by (simp add: nonempty_def exn_bind_def py_bool_def py_len_def py_first_def
      split: json.splits list.splits)

lemma contains_single: "length k > 1 \<Longrightarrow> \<not> contains [ch] k"
  by (cases k) auto

lemma str_match:
  "exn_val (exn_bind (has_path (JStr [ch]) ''geographies'' ''Counties'') H) = exn_val (H False)"
  by (simp add: has_path_def exn_bind_def py_in_def contains_single)

lemma extract_county_spec: "exn_val (extract_county data) = spec_lookup data"
  unfolding extract_county_def path_block first_block
  by (simp add: spec_lookup_def spec_first_county_def path_block first_block str_match
      exn_bind_def py_first_def py_get_def
      split: json.splits option.splits list.splits)

lemma geocode_address_val:
  "geocode_address api a b c d = exn_val (geocode_try api a b c d)"
  by (simp add: geocode_address_def exn_val_def split: sum.splits)

text \<open>
  On a successful response the lookup follows the expected path and returns None as soon
  as the response leaves it, also when a value of another kind sits on the path and the
  code raises TypeError, KeyError or AttributeError.
\<close>

lemma geocode_address_follows_shape:
  "geocode_address (const_api (Response 200 (Some data))) street city state zipcode
     = spec_lookup data"
  by (simp add: geocode_address_val geocode_try_def requests_get_def const_api_def
      raise_for_status_def response_json_def exn_bind_def extract_county_spec)

text \<open>
  C4. The claim asks for None whenever the response deviates from the expected shape,
  also when the first county has no NAME key. There the default of
  \<open>.get('NAME', '')\<close> makes the lookup return the empty string, where every other
  missing part gives None and the docstring promises None when no county is found.
\<close>

theorem C4_missing_name_gives_empty_string:
  "geocode_address (const_api (Response 200 (Some (county_response []))))
     (Some ''1 Main St'') (Some ''Atlanta'') (Some ''GA'') (Some ''30303'') = JStr []"
  by (simp add: geocode_address_def geocode_try_def requests_get_def const_api_def
      raise_for_status_def response_json_def exn_bind_def extract_county_def has_path_def
      py_in_def py_getitem_def nonempty_def py_bool_def py_len_def py_first_def py_get_def
      county_response_def)

text \<open>
  C9, as amended. The lookup returns None when the connection fails, when the request
  times out, when the status is a 4xx or 5xx code, and when the body is not JSON; and
  whatever exception the \<open>try\<close> block raises, the caller gets None and no exception.
\<close>

theorem C9_errors_become_null:
  "(api street city state zipcode = ConnectionFailed
      \<longrightarrow> geocode_address api street city state zipcode = JNull)
   \<and> (api street city state zipcode = TimedOut
      \<longrightarrow> geocode_address api street city state zipcode = JNull)
   \<and> (\<forall>status body. api street city state zipcode = Response status body
        \<and> 400 \<le> status \<and> status < 600
      \<longrightarrow> geocode_address api street city state zipcode = JNull)
   \<and> (\<forall>status. api street city state zipcode = Response status None
      \<longrightarrow> geocode_address api street city state zipcode = JNull)
   \<and> (\<forall>e. geocode_try api street city state zipcode = Inl e
      \<longrightarrow> geocode_address api street city state zipcode = JNull)"
  by (auto simp: geocode_address_def geocode_try_def requests_get_def raise_for_status_def
      response_json_def exn_bind_def)

text \<open>One run for each of the five cases.\<close>

theorem C9_witness:
  "geocode_address (const_api ConnectionFailed) None None None None = JNull
   \<and> geocode_address (const_api TimedOut) None None None None = JNull
   \<and> geocode_address (const_api (Response 503 (Some (county_response [(''NAME'', JStr ''Fulton'')]))))
        None None None None = JNull
   \<and> geocode_address (const_api (Response 200 None)) None None None None = JNull
   \<and> geocode_try (const_api (Response 200 (Some (JNum 1)))) None None None None = Inl TypeError
   \<and> geocode_address (const_api (Response 200 (Some (JNum 1)))) None None None None = JNull"
proof -
  have t: "geocode_try (const_api (Response 200 (Some (JNum 1)))) None None None None = Inl TypeError"
    by (simp add: geocode_try_def requests_get_def const_api_def raise_for_status_def
        response_json_def exn_bind_def extract_county_def has_path_def py_in_def)
  show ?thesis
    using C9_errors_become_null[of "const_api ConnectionFailed" None None None None]
      C9_errors_become_null[of "const_api TimedOut" None None None None]
      C9_errors_become_null[of "const_api (Response 503 (Some (county_response [(''NAME'', JStr ''Fulton'')])))"
        None None None None]
      C9_errors_become_null[of "const_api (Response 200 None)" None None None None]
      C9_errors_become_null[of "const_api (Response 200 (Some (JNum 1)))" None None None None]
      t
    by (simp add: const_api_def)
qed

text \<open>
  The claim as written names every non-2xx status. \<open>raise_for_status\<close> raises only for
  400 to 599: a response with status 300 and a well-shaped body is read like a success.
\<close>

theorem C9_status_300_returns_county:
  "geocode_address (const_api (Response 300 (Some (county_response [(''NAME'', JStr ''Fulton'')]))))
     (Some ''1 Main St'') (Some ''Atlanta'') (Some ''GA'') (Some ''30303'') = JStr ''Fulton''"
  by (simp add: geocode_address_def geocode_try_def requests_get_def const_api_def
      raise_for_status_def response_json_def exn_bind_def extract_county_def has_path_def
      py_in_def py_getitem_def nonempty_def py_bool_def py_len_def py_first_def py_get_def
      county_response_def)

section \<open>Reports\<close>

text \<open>
  Two identical snapshots: no record updated, and a rate of 0 unless the count of missing
  counties is zero.
\<close>

lemma compare_csvs_identical:
  "compare_csvs df df = Inr c \<Longrightarrow>
     records_updated c = 0
     \<and> success_rate c = (if original_missing c = 0 then NotANumber else Finite 0)"
  by (auto simp: compare_csvs_def Let_def np_true_divide_def np_times_def split: option.splits)

text \<open>
  C2. The claim asks for a defined success rate when the original snapshot has no row
  with a missing county. \<open>compare_csvs\<close> divides by that count without a guard: on two
  identical snapshots without NaN county cells it reports zero records updated and a
  success rate that is 0/0, not a number.
\<close>

theorem C2_identical_snapshots_give_nan:
  "compare_csvs resolved_df resolved_df
     = Inr \<lparr>original_missing = 0, updated_missing = 0, records_updated = 0,
            success_rate = NotANumber\<rparr>"
  by (simp add: compare_csvs_def resolved_df_def sum_mask_def isna_def np_true_divide_def
      np_times_def)

lemma sum_mask_isna:
  "sum_mask (map isna col) = int (length (filter (\<lambda>v. v = None) col))"
  by (simp add: sum_mask_def isna_def filter_map comp_def)

lemma length_filter_le_implies:
  "(\<And>x. P x \<Longrightarrow> Q x) \<Longrightarrow> length (filter P xs) \<le> length (filter Q xs)"
  by (induction xs) auto

lemma nulls_le_selected:
  "length (filter (\<lambda>v. v = None) col) \<le> length (filter needs_geocoding_cell col)"
  by (rule length_filter_le_implies) (simp add: needs_geocoding_cell_def isna_def)

text \<open>
  C10. The missing-county count of \<open>analyze_csv\<close> and the two counts of \<open>compare_csvs\<close>
  are the numbers of NaN county cells. Such a count never exceeds the number of rows the
  mask of the pipeline selects on the same column, and it can be strictly smaller: a
  column with UNKNOWN, a blank and a NaN has one missing county and three selected rows.
\<close>

theorem C10_missing_counts_nulls_only:
  "(\<forall>a. analyze_csv df = Inr a \<longrightarrow>
      (\<exists>col. cols df ''CountyName'' = Some col
         \<and> missing_county a = int (length (filter (\<lambda>v. v = None) col))
         \<and> missing_county a \<le> int (length (filter needs_geocoding_cell col))))
   \<and> (\<forall>c. compare_csvs df df2 = Inr c \<longrightarrow>
      (\<exists>col col2. cols df ''CountyName'' = Some col \<and> cols df2 ''CountyName'' = Some col2
         \<and> original_missing c = int (length (filter (\<lambda>v. v = None) col))
         \<and> updated_missing c = int (length (filter (\<lambda>v. v = None) col2))
         \<and> original_missing c \<le> int (length (filter needs_geocoding_cell col))
         \<and> updated_missing c \<le> int (length (filter needs_geocoding_cell col2))))
   \<and> (\<exists>d a col. analyze_csv d = Inr a \<and> cols d ''CountyName'' = Some col
         \<and> missing_county a < int (length (filter needs_geocoding_cell col)))"
proof (intro conjI allI impI)
  fix a assume "analyze_csv df = Inr a"
  then obtain col where "cols df ''CountyName'' = Some col"
    "missing_county a = sum_mask (map isna col)"
    by (auto simp: analyze_csv_def split: option.splits)
  then show "\<exists>col. cols df ''CountyName'' = Some col
         \<and> missing_county a = int (length (filter (\<lambda>v. v = None) col))
         \<and> missing_county a \<le> int (length (filter needs_geocoding_cell col))"
    using nulls_le_selected[of col] by (simp add: sum_mask_isna)
next
  fix c assume "compare_csvs df df2 = Inr c"
  then obtain col col2 where "cols df ''CountyName'' = Some col"
    "cols df2 ''CountyName'' = Some col2"
    "original_missing c = sum_mask (map isna col)"
    "updated_missing c = sum_mask (map isna col2)"
    by (auto simp: compare_csvs_def Let_def split: option.splits)
  then show "\<exists>col col2. cols df ''CountyName'' = Some col \<and> cols df2 ''CountyName'' = Some col2
         \<and> original_missing c = int (length (filter (\<lambda>v. v = None) col))
         \<and> updated_missing c = int (length (filter (\<lambda>v. v = None) col2))
         \<and> original_missing c \<le> int (length (filter needs_geocoding_cell col))
         \<and> updated_missing c \<le> int (length (filter needs_geocoding_cell col2))"
    using nulls_le_selected[of col] nulls_le_selected[of col2] by (simp add: sum_mask_isna)
next
  have "analyze_csv report_df = Inr \<lparr>total_properties = 3, missing_county = 1\<rparr>"
    by (simp add: analyze_csv_def report_df_def sum_mask_def isna_def)
  moreover have "cols report_df ''CountyName'' = Some [Some ''UNKNOWN'', Some '' '', None]"
    by (simp add: report_df_def)
  moreover have "length (filter needs_geocoding_cell [Some ''UNKNOWN'', Some '' '', None]) = 3"
    by (simp add: needs_geocoding_cell_def isna_def astype_str_def strip_def upper_def)
  ultimately show "\<exists>d a col. analyze_csv d = Inr a \<and> cols d ''CountyName'' = Some col
         \<and> missing_county a < int (length (filter needs_geocoding_cell col))"
    by (intro exI[of _ report_df] exI[of _ "\<lparr>total_properties = 3, missing_county = 1\<rparr>"]
        exI[of _ "[Some ''UNKNOWN'', Some '' '', None]"]) simp
qed

text \<open>The report and the comparison of that frame.\<close>

theorem C10_witness:
  "\<exists>a c. analyze_csv report_df = Inr a \<and> compare_csvs report_df report_df = Inr c
     \<and> missing_county a = 1 \<and> original_missing c = 1 \<and> updated_missing c = 1
     \<and> missing_county a \<le> 3"
proof -
  have a: "analyze_csv report_df = Inr \<lparr>total_properties = 3, missing_county = 1\<rparr>"
    by (simp add: analyze_csv_def report_df_def sum_mask_def isna_def)
  have "\<exists>c. compare_csvs report_df report_df = Inr c"
    by (simp add: compare_csvs_def report_df_def Let_def)
  then obtain c where c: "compare_csvs report_df report_df = Inr c" by blast
  have col: "cols report_df ''CountyName'' = Some [Some ''UNKNOWN'', Some '' '', None]"
    by (simp add: report_df_def)
  have n: "length (filter needs_geocoding_cell [Some ''UNKNOWN'', Some '' '', None]) = 3"
    by (simp add: needs_geocoding_cell_def isna_def astype_str_def strip_def upper_def)
  from C10_missing_counts_nulls_only[of report_df report_df] a c col n
  show ?thesis by auto
qed

section \<open>Files by county\<close>

lemma write_groups_foldl:
  "write_groups output_dir df gs fs files =
     (foldl (write_group output_dir df) fs gs,
      files @ map (\<lambda>g. county_filename output_dir (fst g)) gs)"
  by (induction gs arbitrary: fs files) (auto simp: write_group_def Let_def)

lemma foldl_write_other:
  "f \<notin> (\<lambda>g. county_filename output_dir (fst g)) ` set gs \<Longrightarrow>
   foldl (write_group output_dir df) fs gs f = fs f"
  by (induction gs arbitrary: fs) (auto simp: write_group_def)

lemma foldl_write_dom:
  "dom (foldl (write_group output_dir df) fs gs)
     = dom fs \<union> (\<lambda>g. county_filename output_dir (fst g)) ` set gs"
  by (induction gs arbitrary: fs) (auto simp: write_group_def)

lemma foldl_write_lookup:
  "distinct (map (\<lambda>g. county_filename output_dir (fst g)) gs) \<Longrightarrow> g \<in> set gs \<Longrightarrow>
   foldl (write_group output_dir df) fs gs (county_filename output_dir (fst g))
     = Some (take_rows df (snd g))"
proof (induction gs arbitrary: fs)
  case Nil
  then show ?case by simp
next
  case (Cons h gs)
  show ?case
  proof (cases "g = h")
    case True
    have "county_filename output_dir (fst h)
            \<notin> (\<lambda>g. county_filename output_dir (fst g)) ` set gs"
      using Cons.prems(1) by auto
    then have "foldl (write_group output_dir df) (write_group output_dir df fs h) gs
                 (county_filename output_dir (fst h))
               = write_group output_dir df fs h (county_filename output_dir (fst h))"
      by (rule foldl_write_other)
    moreover have "write_group output_dir df fs h (county_filename output_dir (fst h))
                     = Some (take_rows df (snd h))"
      by (simp add: write_group_def)
    ultimately show ?thesis using True by simp
  next
    case False
    with Cons.prems have "g \<in> set gs" "distinct (map (\<lambda>g. county_filename output_dir (fst g)) gs)"
      by auto
    then show ?thesis using Cons.IH by simp
  qed
qed

lemma length_filter_positions:
  "length (filter (\<lambda>i. P (col ! i)) [0..<length col]) = length (filter P col)"
proof (induction col rule: rev_induct)
  case Nil
  then show ?case by simp
next
  case (snoc v col)
  have "filter (\<lambda>i. P ((col @ [v]) ! i)) [0..<length col] = filter (\<lambda>i. P (col ! i)) [0..<length col]"
    by (rule filter_cong) (auto simp: nth_append)
  with snoc show ?case by (simp add: nth_append)
qed

lemma sum_indicator_distinct:
  "distinct ks \<Longrightarrow> (\<Sum>k\<leftarrow>ks. if a = k then 1 else 0) = (if a \<in> set ks then 1 else (0::nat))"
  by (induction ks) auto

lemma group_sizes_sum:
  "distinct ks \<Longrightarrow> {k. Some k \<in> set col} \<subseteq> set ks \<Longrightarrow>
   (\<Sum>k\<leftarrow>ks. length (filter (\<lambda>v. v = Some k) col)) = length (filter (\<lambda>v. v \<noteq> None) col)"
proof (induction col)
  case Nil
  then show ?case by simp
next
  case (Cons v col)
  have "(\<Sum>k\<leftarrow>ks. length (filter (\<lambda>v. v = Some k) (v # col)))
        = (\<Sum>k\<leftarrow>ks. (if v = Some k then 1 else 0) + length (filter (\<lambda>v. v = Some k) col))"
    by (rule arg_cong[where f = sum_list]) auto
  also have "\<dots> = (\<Sum>k\<leftarrow>ks. if v = Some k then 1 else 0)
                   + (\<Sum>k\<leftarrow>ks. length (filter (\<lambda>v. v = Some k) col))"
    by (simp add: sum_list_addf)
  also have "(\<Sum>k\<leftarrow>ks. length (filter (\<lambda>v. v = Some k) col)) = length (filter (\<lambda>v. v \<noteq> None) col)"
    using Cons by auto
  also have "(\<Sum>k\<leftarrow>ks. if v = Some k then 1 else 0) = (if v = None then 0 else (1::nat))"
  proof (cases v)
    case None
    then show ?thesis by simp
  next
    case (Some a)
    then have "a \<in> set ks" using Cons.prems(2) by auto
    then show ?thesis using Some sum_indicator_distinct[OF Cons.prems(1), of a] by simp
  qed
  finally show ?case by simp
qed

lemma county_keys_set: "set (county_keys col) = {k. Some k \<in> set col}"
  by (force simp: county_keys_def image_iff)

lemma county_keys_distinct: "distinct (county_keys col)"
  by (simp add: county_keys_def)

text \<open>
  When no two counties of the dataset get the same file name, \<open>export_by_county\<close>
  writes one file per distinct county, each with the rows of that county, and the row
  counts of the files sum to the number of rows with a county.
\<close>

lemma export_without_collision:
  assumes col: "cols df ''CountyName'' = Some col"
      and inj: "inj_on (county_filename output_dir) (set (county_keys col))"
  shows "\<exists>files fs'. export_by_county df output_dir Map.empty = Inr (files, fs')
     \<and> files = map (county_filename output_dir) (county_keys col)
     \<and> distinct files
     \<and> dom fs' = set files
     \<and> (\<forall>k \<in> set (county_keys col). fs' (county_filename output_dir k)
            = Some (take_rows df (filter (\<lambda>i. col ! i = Some k) [0..<length col])))
     \<and> (\<Sum>f\<leftarrow>files. nrows (the (fs' f))) = length (filter (\<lambda>v. v \<noteq> None) col)"
proof -
  let ?fname = "county_filename output_dir"
  let ?grp = "\<lambda>k. filter (\<lambda>i. col ! i = Some k) [0..<length col]"
  let ?gs = "groupby_county col"
  let ?fs = "foldl (write_group output_dir df) Map.empty ?gs"
  let ?files = "map ?fname (county_keys col)"
  have names: "map (\<lambda>g. ?fname (fst g)) ?gs = ?files"
    by (simp add: groupby_county_def comp_def)
  have run: "export_by_county df output_dir Map.empty = Inr (?files, ?fs)"
    using col by (simp add: export_by_county_def write_groups_foldl names)
  have dist: "distinct ?files"
    using inj county_keys_distinct[of col] by (simp add: distinct_map)
  have dom: "dom ?fs = set ?files"
    using names by (simp add: foldl_write_dom image_image flip: set_map)
  have look: "?fs (?fname k) = Some (take_rows df (?grp k))" if "k \<in> set (county_keys col)" for k
  proof -
    have "(k, ?grp k) \<in> set ?gs" using that by (auto simp: groupby_county_def)
    from foldl_write_lookup[OF _ this, of output_dir df Map.empty] dist names
    show ?thesis by simp
  qed
  have "(\<Sum>f\<leftarrow>?files. nrows (the (?fs f)))
          = (\<Sum>k\<leftarrow>county_keys col. nrows (the (?fs (?fname k))))"
    by (simp add: comp_def)
  also have "\<dots> = (\<Sum>k\<leftarrow>county_keys col. length (?grp k))"
    by (rule arg_cong[where f = sum_list], rule map_cong) (simp_all add: look take_rows_def)
  also have "\<dots> = (\<Sum>k\<leftarrow>county_keys col. length (filter (\<lambda>v. v = Some k) col))"
    by (simp add: length_filter_positions[of "\<lambda>v. v = Some k" for k])
  also have "\<dots> = length (filter (\<lambda>v. v \<noteq> None) col)"
    by (rule group_sizes_sum) (simp_all add: county_keys_distinct county_keys_set)
  finally have total: "(\<Sum>f\<leftarrow>?files. nrows (the (?fs f))) = length (filter (\<lambda>v. v \<noteq> None) col)" .
  from run dist dom look total show ?thesis by blast
qed

lemma take_rows_wf: "wf_df (take_rows df idxs)"
  by (auto simp: wf_df_def take_rows_def)

text \<open>
  C8. The claim asks for one file per distinct county and for row counts that sum to the
  number of rows with a county. The file name replaces spaces by underscores, so the
  counties \<open>De Kalb\<close> and \<open>De_Kalb\<close> get the same name: the second group replaces the
  file of the first, and of two rows with a county one file with one row is left.
\<close>

theorem C8_colliding_names_share_one_file:
  "\<exists>fs'. export_by_county clash_df ''out'' Map.empty
           = Inr ([''out/De_Kalb.csv'', ''out/De_Kalb.csv''], fs')
     \<and> dom fs' = {''out/De_Kalb.csv''}
     \<and> map_option nrows (fs' ''out/De_Kalb.csv'') = Some 1
     \<and> map_option (\<lambda>group_df. cols group_df ''CountyName'') (fs' ''out/De_Kalb.csv'')
         = Some (Some [Some ''De_Kalb''])"
  by (simp add: export_by_county_def clash_df_def groupby_county_def county_keys_def
      county_filename_def replace_char_def take_rows_def upt_conv_Cons Let_def)

section \<open>Cleaning\<close>































end
